theory Spec2Isabelle
  imports Main "HOL-Library.Sublist"
begin

section \<open>The Bitbucket webhook dispatcher\<close>

text \<open>
  A shallow embedding of package \<open>bitbucket\<close>: the \<open>Webhook\<close> type, its constructor
  \<open>NewWebhook\<close>, the registration method \<open>Handle\<close>, the request handler \<open>ServeHTTP\<close>,
  its helper \<open>badRequest\<close> and the table \<open>eventTypeMap\<close>.

  Go values are represented as follows.
  \<^item> An \<open>error\<close> is the string its \<open>Error()\<close> method returns; a \<open>nil\<close> error is \<open>None\<close>.
  \<^item> A \<open>map[K]V\<close> is a partial function; a field that may hold the \<open>nil\<close> map is an
    \<open>option\<close> of one. Reading the \<open>nil\<close> map finds nothing, writing to it panics.
  \<^item> A \<open>func\<close> value is an \<open>option\<close> of a function, \<open>None\<close> being the \<open>nil\<close> func.
    Calling the \<open>nil\<close> func panics.
  \<^item> What a call does to the outside (the response writer, the loggers, the callbacks,
    the body stream) is recorded, in program order, in a list of effects that is threaded
    through the calls together with the response recorder.
\<close>

subsection \<open>Payload types\<close>

text \<open>
  The seventeen struct types of \<open>types.go\<close> that occur as values of \<open>eventTypeMap\<close>.
  \<open>ServeHTTP\<close> uses such a value only through \<open>reflect.TypeOf\<close>, so a constructor
  stands for the type, and for the zero-valued instance \<open>reflect.New\<close> allocates of it.
\<close>

datatype event_type =
    RepoPushEvent
  | RepoForkEvent
  | RepoCommitCommentCreatedEvent
  | RepoCommitStatusCreatedEvent
  | RepoCommitStatusUpdatedEvent
  | IssueCreatedEvent
  | IssueUpdatedEvent
  | IssueCommentCreatedEvent
  | PullRequestCreatedEvent
  | PullRequestUpdatedEvent
  | PullRequestApprovedEvent
  | PullRequestApprovalRemovedEvent
  | PullRequestMergedEvent
  | PullRequestDeclinedEvent
  | PullRequestCommentCreatedEvent
  | PullRequestCommentUpdatedEvent
  | PullRequestCommentDeletedEvent

subsection \<open>Types of the dispatcher\<close>

type_synonym go_error = string

type_synonym Headers = "string \<rightharpoonup> string"

type_synonym 'p handler_func = "Headers \<Rightarrow> 'p \<Rightarrow> go_error option"

type_synonym 'p WebhookHandler = "'p handler_func option"

type_synonym log_func = "string \<Rightarrow> string list \<Rightarrow> unit"

record 'p Webhook =
  LogOnError :: "log_func option"
  handlers :: "(string \<rightharpoonup> 'p WebhookHandler) option"

datatype panic =
    assignment_to_entry_in_nil_map
  | nil_pointer_dereference

text \<open>The part of \<open>http.Request\<close> that \<open>ServeHTTP\<close> reads.\<close>

record Request =
  Header :: "string \<rightharpoonup> string list"
  Body :: string

text \<open>
  The response writer, with the fields of \<open>httptest.ResponseRecorder\<close> that the tests
  read: a recorder starts at status 200 with nothing written, which is also what
  \<open>net/http\<close> sends when a handler returns without writing.
\<close>

record ResponseRecorder =
  Code :: nat
  Written :: string
  wroteHeader :: bool

datatype 'p effect =
    is_handlers_lookup: handlers_lookup string
  | is_eventTypeMap_lookup: eventTypeMap_lookup string
  | is_reflect_New: reflect_New event_type
  | is_Decode_call: Decode_call event_type string
  | is_handler_call: handler_call "'p handler_func" Headers 'p
  | is_LogOnError_call: LogOnError_call string "string list"
  | is_log_Printf: log_Printf string "string list"
  | is_http_Error_call: http_Error_call string nat

record 'p world =
  recorder :: ResponseRecorder
  effects :: "'p effect list"

subsection \<open>Library functions used by the dispatcher\<close>

definition StatusBadRequest :: nat where
  "StatusBadRequest = 400"

definition StatusOK :: nat where
  "StatusOK = 200"

definition NewRecorder :: ResponseRecorder where
  "NewRecorder = \<lparr>Code = StatusOK, Written = [], wroteHeader = False\<rparr>"

definition WriteHeader :: "ResponseRecorder \<Rightarrow> nat \<Rightarrow> ResponseRecorder" where
  "WriteHeader rw code =
     (if wroteHeader rw then rw else rw\<lparr>Code := code, wroteHeader := True\<rparr>)"

definition Write :: "ResponseRecorder \<Rightarrow> string \<Rightarrow> ResponseRecorder" where
  "Write rw b = (let rw' = WriteHeader rw StatusOK in rw'\<lparr>Written := Written rw' @ b\<rparr>)"

text \<open>
  \<open>http.Error(w, error, code)\<close> writes the status line and then the message with
  \<open>fmt.Fprintln\<close>, that is, followed by a newline. (The response headers it sets are
  not part of the recorder.)
\<close>

definition Error_rw :: "ResponseRecorder \<Rightarrow> string \<Rightarrow> nat \<Rightarrow> ResponseRecorder" where
  "Error_rw rw msg code = Write (WriteHeader rw code) (msg @ [CHR 0x0A])"

text \<open>
  \<open>http.Header.Get\<close>: the first value stored under the key, the empty string when there
  is none. (\<open>Get\<close> canonicalises the key first; the one key \<open>ServeHTTP\<close> asks for,
  \<open>X-Event-Key\<close>, is in canonical form.)
\<close>

definition Header_Get :: "(string \<rightharpoonup> string list) \<Rightarrow> string \<Rightarrow> string" where
  "Header_Get h key =
     (case h key of None \<Rightarrow> [] | Some vs \<Rightarrow> (case vs of [] \<Rightarrow> [] | v # _ \<Rightarrow> v))"

text \<open>
  \<open>fmt.Sprintf\<close> for the verb the source uses, \<open>%s\<close>, whose operands (a string or an
  error) are given as the strings it prints. A verb without an operand prints
  \<open>%!s(MISSING)\<close>. Every call in the source passes as many operands as its format has
  verbs.
\<close>

fun Sprintf :: "string \<Rightarrow> string list \<Rightarrow> string" where
  "Sprintf [] p = []"
| "Sprintf [c] p = [c]"
| "Sprintf (c # d # fmt) p =
     (if c = CHR ''%'' \<and> d = CHR ''s''
      then (case p of
              [] \<Rightarrow> ''%!s(MISSING)'' @ Sprintf fmt []
            | a # p' \<Rightarrow> a @ Sprintf fmt p')
      else c # Sprintf (d # fmt) p)"

text \<open>Indexing a Go map: the zero value of the element type when the key is absent.\<close>

definition index_string :: "(string \<rightharpoonup> string) \<Rightarrow> string \<Rightarrow> string" where
  "index_string m k = (case m k of None \<Rightarrow> [] | Some v \<Rightarrow> v)"

text \<open>The two-result form \<open>v, ok := m[k]\<close> on a map that may be \<open>nil\<close>.\<close>

definition index_ok :: "('k \<rightharpoonup> 'v) option \<Rightarrow> 'k \<Rightarrow> 'v option" where
  "index_ok m k = (case m of None \<Rightarrow> None | Some f \<Rightarrow> f k)"

subsection \<open>The dispatcher\<close>

definition NewWebhook :: "'p Webhook" where
  "NewWebhook = \<lparr>LogOnError = None, handlers = Some Map.empty\<rparr>"

text \<open>The zero value \<open>Webhook{}\<close>: both fields \<open>nil\<close>.\<close>

definition zero_Webhook :: "'p Webhook" where
  "zero_Webhook = \<lparr>LogOnError = None, handlers = None\<rparr>"

definition eventTypeMap :: "string \<rightharpoonup> event_type" where
  "eventTypeMap = map_of
     [(''repo:push'', RepoPushEvent),
      (''repo:fork'', RepoForkEvent),
      (''repo:commit_comment_created'', RepoCommitCommentCreatedEvent),
      (''repo:commit_status_created'', RepoCommitStatusCreatedEvent),
      (''repo:commit_status_updated'', RepoCommitStatusUpdatedEvent),
      (''issue:created'', IssueCreatedEvent),
      (''issue:updated'', IssueUpdatedEvent),
      (''issue:comment_created'', IssueCommentCreatedEvent),
      (''pullrequest:created'', PullRequestCreatedEvent),
      (''pullrequest:updated'', PullRequestUpdatedEvent),
      (''pullrequest:approved'', PullRequestApprovedEvent),
      (''pullrequest:unapproved'', PullRequestApprovalRemovedEvent),
      (''pullrequest:fulfilled'', PullRequestMergedEvent),
      (''pullrequest:rejected'', PullRequestDeclinedEvent),
      (''pullrequest:comment_created'', PullRequestCommentCreatedEvent),
      (''pullrequest:comment_updated'', PullRequestCommentUpdatedEvent),
      (''pull_request:comment_deleted'', PullRequestCommentDeletedEvent)]"

definition emit :: "'p effect \<Rightarrow> 'p world \<Rightarrow> 'p world" where
  "emit e s = s\<lparr>effects := effects s @ [e]\<rparr>"

definition http_Error :: "string \<Rightarrow> nat \<Rightarrow> 'p world \<Rightarrow> 'p world" where
  "http_Error msg code s =
     emit (http_Error_call msg code) (s\<lparr>recorder := Error_rw (recorder s) msg code\<rparr>)"

definition badRequest :: "'p Webhook \<Rightarrow> string \<Rightarrow> string list \<Rightarrow> 'p world \<Rightarrow> 'p world" where
  "badRequest wh msg p s =
     (let fmsg = Sprintf msg p;
          s1 = (case LogOnError wh of
                  None \<Rightarrow> s
                | Some f \<Rightarrow> emit (LogOnError_call fmsg []) s)
      in http_Error fmsg StatusBadRequest s1)"

text \<open>The loop of \<open>ServeHTTP\<close> over the header names of interest.\<close>

definition extract_headers :: "Request \<Rightarrow> Headers" where
  "extract_headers r =
     fold (\<lambda>header headers. headers(header \<mapsto> Header_Get (Header r) header))
          [''X-Event-Key''] Map.empty"

text \<open>
  \<open>ServeHTTP\<close>. Its first argument stands for \<open>json.NewDecoder(r.Body).Decode(event)\<close>
  of \<open>encoding/json\<close>, which is not part of the package: given the type of the freshly
  allocated instance and the body, it yields the decoding error or the populated
  instance.
\<close>

definition ServeHTTP ::
  "(event_type \<Rightarrow> string \<Rightarrow> go_error + 'p) \<Rightarrow> 'p Webhook \<Rightarrow> Request \<Rightarrow> 'p world
     \<Rightarrow> panic + 'p world" where
  "ServeHTTP Decode wh r s =
     (let headers = extract_headers r;
          eventKey = index_string headers ''X-Event-Key''
      in if eventKey = [] then Inr (badRequest wh ''Missing X-Event-Key'' [] s)
         else
           let s1 = emit (handlers_lookup eventKey) s in
           case index_ok (handlers wh) eventKey of
             None \<Rightarrow> Inr (badRequest wh ''No handler for the event key: %s'' [eventKey] s1)
           | Some handler \<Rightarrow>
               let s2 = emit (eventTypeMap_lookup eventKey) s1 in
               (case eventTypeMap eventKey of
                  None \<Rightarrow>
                    Inr (badRequest wh ''Unsupported event key type: %s'' [eventKey] s2)
                | Some t \<Rightarrow>
                    let s3 = emit (reflect_New t) s2;
                        s4 = emit (Decode_call t (Body r)) s3
                    in (case Decode t (Body r) of
                          Inl err \<Rightarrow>
                            Inr (http_Error (''Read error: '' @ err) StatusBadRequest
                                   (emit (log_Printf ''Error parsing the body: %s'' [err]) s4))
                        | Inr event \<Rightarrow>
                            (case handler of
                               None \<Rightarrow> Inl nil_pointer_dereference
                             | Some f \<Rightarrow>
                                 let s5 = emit (handler_call f headers event) s4 in
                                 (case f headers event of
                                    Some err \<Rightarrow>
                                      Inr (badRequest wh ''Error handling the event: %s''
                                             [err] s5)
                                  | None \<Rightarrow> Inr s5)))))"

definition Handle :: "'p Webhook \<Rightarrow> string \<Rightarrow> 'p WebhookHandler \<Rightarrow> panic + 'p Webhook" where
  "Handle wh eventKey handler =
     (case handlers wh of
        None \<Rightarrow> Inl assignment_to_entry_in_nil_map
      | Some m \<Rightarrow> Inr (wh\<lparr>handlers := Some (m(eventKey \<mapsto> handler))\<rparr>))"

subsection \<open>Observations\<close>

text \<open>The recorder after a single \<open>http.Error\<close> with status 400 on a fresh recorder.\<close>

definition rejected :: "string \<Rightarrow> ResponseRecorder" where
  "rejected msg = \<lparr>Code = 400, Written = msg @ [CHR 0x0A], wroteHeader = True\<rparr>"

text \<open>
  The calls of the callback \<open>LogOnError\<close> that \<open>badRequest\<close> makes for a message: one
  when the field is set, none when it is \<open>nil\<close>.
\<close>

definition LogOnError_effects :: "'p Webhook \<Rightarrow> string \<Rightarrow> 'p effect list" where
  "LogOnError_effects wh fmsg =
     (case LogOnError wh of None \<Rightarrow> [] | Some f \<Rightarrow> [LogOnError_call fmsg []])"

text \<open>The value of the header \<open>X-Event-Key\<close> of a request, as \<open>ServeHTTP\<close> reads it.\<close>

definition event_key :: "Request \<Rightarrow> string" where
  "event_key r = Header_Get (Header r) ''X-Event-Key''"

subsection \<open>Initial state and concrete instances\<close>

text \<open>A request arrives with a fresh recorder and nothing done yet.\<close>

definition start :: "'p world" where
  "start = \<lparr>recorder = NewRecorder, effects = []\<rparr>"

text \<open>
  A decoder for the concrete evaluations below, with the payload represented by the type
  of the instance: as \<open>encoding/json\<close>, it fails with \<open>io.EOF\<close>, whose message is
  \<open>EOF\<close>, on the empty body, and it leaves every field of the zero-valued instance as it
  is on the body \<open>{}\<close>. It is used at these two bodies only.
\<close>

definition sample_Decode :: "event_type \<Rightarrow> string \<Rightarrow> go_error + event_type" where
  "sample_Decode t body = (if body = [] then Inl ''EOF'' else Inr t)"

text \<open>
  The request the tests build: \<open>http.NewRequest\<close> with the body, then
  \<open>Header.Add("X-Event-Key", event)\<close>.
\<close>

definition test_request :: "string \<Rightarrow> string \<Rightarrow> Request" where
  "test_request event body = \<lparr>Header = [''X-Event-Key'' \<mapsto> [event]], Body = body\<rparr>"

text \<open>A request without the header.\<close>

definition bare_request :: "string \<Rightarrow> Request" where
  "bare_request body = \<lparr>Header = Map.empty, Body = body\<rparr>"

text \<open>Two handlers: one returns \<open>nil\<close>, one returns an error.\<close>

definition accept :: "event_type handler_func" where
  "accept headers event = None"

definition refuse :: "event_type handler_func" where
  "refuse headers event = Some ''refused''"

section \<open>Evaluating the dispatcher\<close>

subsection \<open>Library functions and the table\<close>

lemma extract_headers_eq:
  "extract_headers r = [''X-Event-Key'' \<mapsto> event_key r]"
  by (simp add: extract_headers_def event_key_def)

lemma eventKey_eq:
  "index_string (extract_headers r) ''X-Event-Key'' = event_key r"
  by (simp add: extract_headers_eq index_string_def)

lemma Sprintf_missing: "Sprintf ''Missing X-Event-Key'' [] = ''Missing X-Event-Key''"
  by simp

lemma Sprintf_no_handler:
  "Sprintf ''No handler for the event key: %s'' [k] = ''No handler for the event key: '' @ k"
  by simp

lemma Sprintf_unsupported:
  "Sprintf ''Unsupported event key type: %s'' [k] = ''Unsupported event key type: '' @ k"
  by simp

lemma Sprintf_handler_error:
  "Sprintf ''Error handling the event: %s'' [e] = ''Error handling the event: '' @ e"
  by simp

lemma eventTypeMap_empty_key: "eventTypeMap [] = None"
  by (simp add: eventTypeMap_def)

subsection \<open>The helpers on a fresh recorder\<close>

lemma http_Error_fresh:
  "recorder s = NewRecorder \<Longrightarrow>
   http_Error msg StatusBadRequest s =
     \<lparr>recorder = rejected msg, effects = effects s @ [http_Error_call msg StatusBadRequest]\<rparr>"
  by (simp add: http_Error_def emit_def Error_rw_def Write_def WriteHeader_def
      NewRecorder_def rejected_def StatusBadRequest_def StatusOK_def)

lemma badRequest_fresh:
  "recorder s = NewRecorder \<Longrightarrow>
   badRequest wh msg p s =
     \<lparr>recorder = rejected (Sprintf msg p),
      effects = effects s @ LogOnError_effects wh (Sprintf msg p)
                @ [http_Error_call (Sprintf msg p) StatusBadRequest]\<rparr>"
  by (simp add: badRequest_def Let_def http_Error_fresh LogOnError_effects_def emit_def
      split: option.split)

text \<open>
  What \<open>badRequest\<close> adds to the effects: the call of \<open>LogOnError\<close> with the formatted
  message, once and before \<open>http.Error\<close>, when the callback is set; \<open>http.Error\<close>
  alone when it is not.
\<close>

lemma badRequest_LogOnError_set:
  "recorder s = NewRecorder \<Longrightarrow> LogOnError wh = Some l \<Longrightarrow>
   effects (badRequest wh msg p s) =
     effects s @ [LogOnError_call (Sprintf msg p) [],
                  http_Error_call (Sprintf msg p) StatusBadRequest]"
  by (simp add: badRequest_fresh LogOnError_effects_def)

lemma badRequest_LogOnError_unset:
  "recorder s = NewRecorder \<Longrightarrow> LogOnError wh = None \<Longrightarrow>
   effects (badRequest wh msg p s) =
     effects s @ [http_Error_call (Sprintf msg p) StatusBadRequest]"
  by (simp add: badRequest_fresh LogOnError_effects_def)

lemma recorder_emit: "recorder (emit e s) = recorder s"
  by (simp add: emit_def)

lemma effects_emit: "effects (emit e s) = effects s @ [e]"
  by (simp add: emit_def)

lemma recorder_start: "recorder start = NewRecorder"
  by (simp add: start_def)

lemma effects_start: "effects start = []"
  by (simp add: start_def)

lemmas world_simps = recorder_emit effects_emit recorder_start effects_start

subsection \<open>The paths of \<open>ServeHTTP\<close>\<close>

lemma ServeHTTP_missing:
  assumes "event_key r = []"
  shows "ServeHTTP Decode wh r start =
     Inr \<lparr>recorder = rejected ''Missing X-Event-Key'',
          effects = LogOnError_effects wh ''Missing X-Event-Key''
                    @ [http_Error_call ''Missing X-Event-Key'' StatusBadRequest]\<rparr>"
  using assms
  by (simp add: ServeHTTP_def Let_def eventKey_eq badRequest_fresh world_simps)

lemma ServeHTTP_no_handler:
  assumes "event_key r = k" "k \<noteq> []" "index_ok (handlers wh) k = None"
  shows "ServeHTTP Decode wh r start =
     Inr \<lparr>recorder = rejected (''No handler for the event key: '' @ k),
          effects = [handlers_lookup k]
                    @ LogOnError_effects wh (''No handler for the event key: '' @ k)
                    @ [http_Error_call (''No handler for the event key: '' @ k)
                         StatusBadRequest]\<rparr>"
  using assms
  by (simp add: ServeHTTP_def Let_def eventKey_eq badRequest_fresh world_simps)

lemma ServeHTTP_unsupported:
  assumes "event_key r = k" "k \<noteq> []" "index_ok (handlers wh) k = Some h"
    "eventTypeMap k = None"
  shows "ServeHTTP Decode wh r start =
     Inr \<lparr>recorder = rejected (''Unsupported event key type: '' @ k),
          effects = [handlers_lookup k, eventTypeMap_lookup k]
                    @ LogOnError_effects wh (''Unsupported event key type: '' @ k)
                    @ [http_Error_call (''Unsupported event key type: '' @ k)
                         StatusBadRequest]\<rparr>"
  using assms
  by (simp add: ServeHTTP_def Let_def eventKey_eq badRequest_fresh world_simps)

lemma cataloged_nonempty: "eventTypeMap k = Some t \<Longrightarrow> k \<noteq> []"
  using eventTypeMap_empty_key by auto

lemma ServeHTTP_decode_error:
  assumes "event_key r = k" "index_ok (handlers wh) k = Some h"
    "eventTypeMap k = Some t" "Decode t (Body r) = Inl err"
  shows "ServeHTTP Decode wh r start =
     Inr \<lparr>recorder = rejected (''Read error: '' @ err),
          effects = [handlers_lookup k, eventTypeMap_lookup k, reflect_New t,
                     Decode_call t (Body r),
                     log_Printf ''Error parsing the body: %s'' [err],
                     http_Error_call (''Read error: '' @ err) StatusBadRequest]\<rparr>"
  using assms cataloged_nonempty [OF assms(3)]
  by (simp add: ServeHTTP_def Let_def eventKey_eq http_Error_fresh world_simps)

lemma ServeHTTP_nil_handler:
  assumes "event_key r = k" "index_ok (handlers wh) k = Some None"
    "eventTypeMap k = Some t" "Decode t (Body r) = Inr p"
  shows "ServeHTTP Decode wh r start = Inl nil_pointer_dereference"
  using assms cataloged_nonempty [OF assms(3)]
  by (simp add: ServeHTTP_def Let_def eventKey_eq)

lemma ServeHTTP_handler_error:
  assumes "event_key r = k" "index_ok (handlers wh) k = Some (Some f)"
    "eventTypeMap k = Some t" "Decode t (Body r) = Inr p"
    "f [''X-Event-Key'' \<mapsto> k] p = Some err"
  shows "ServeHTTP Decode wh r start =
     Inr \<lparr>recorder = rejected (''Error handling the event: '' @ err),
          effects = [handlers_lookup k, eventTypeMap_lookup k, reflect_New t,
                     Decode_call t (Body r), handler_call f [''X-Event-Key'' \<mapsto> k] p]
                    @ LogOnError_effects wh (''Error handling the event: '' @ err)
                    @ [http_Error_call (''Error handling the event: '' @ err)
                         StatusBadRequest]\<rparr>"
  using assms cataloged_nonempty [OF assms(3)]
  by (simp add: ServeHTTP_def Let_def eventKey_eq extract_headers_eq index_string_def
      badRequest_fresh world_simps)

lemma ServeHTTP_success:
  assumes "event_key r = k" "index_ok (handlers wh) k = Some (Some f)"
    "eventTypeMap k = Some t" "Decode t (Body r) = Inr p"
    "f [''X-Event-Key'' \<mapsto> k] p = None"
  shows "ServeHTTP Decode wh r start =
     Inr \<lparr>recorder = NewRecorder,
          effects = [handlers_lookup k, eventTypeMap_lookup k, reflect_New t,
                     Decode_call t (Body r), handler_call f [''X-Event-Key'' \<mapsto> k] p]\<rparr>"
  using assms cataloged_nonempty [OF assms(3)]
  by (simp add: ServeHTTP_def Let_def eventKey_eq extract_headers_eq index_string_def
      emit_def start_def)

text \<open>Every dispatch from the initial state takes exactly one of these seven paths.\<close>

lemma ServeHTTP_cases:
  obtains
    (missing) "event_key r = []"
      "ServeHTTP Decode wh r start =
         Inr \<lparr>recorder = rejected ''Missing X-Event-Key'',
              effects = LogOnError_effects wh ''Missing X-Event-Key''
                        @ [http_Error_call ''Missing X-Event-Key'' StatusBadRequest]\<rparr>"
  | (no_handler) "event_key r \<noteq> []" "index_ok (handlers wh) (event_key r) = None"
      "ServeHTTP Decode wh r start =
         Inr \<lparr>recorder = rejected (''No handler for the event key: '' @ event_key r),
              effects = [handlers_lookup (event_key r)]
                @ LogOnError_effects wh (''No handler for the event key: '' @ event_key r)
                @ [http_Error_call (''No handler for the event key: '' @ event_key r)
                     StatusBadRequest]\<rparr>"
  | (unsupported) h where "event_key r \<noteq> []"
      "index_ok (handlers wh) (event_key r) = Some h" "eventTypeMap (event_key r) = None"
      "ServeHTTP Decode wh r start =
         Inr \<lparr>recorder = rejected (''Unsupported event key type: '' @ event_key r),
              effects = [handlers_lookup (event_key r), eventTypeMap_lookup (event_key r)]
                @ LogOnError_effects wh (''Unsupported event key type: '' @ event_key r)
                @ [http_Error_call (''Unsupported event key type: '' @ event_key r)
                     StatusBadRequest]\<rparr>"
  | (decode_error) h t err where "index_ok (handlers wh) (event_key r) = Some h"
      "eventTypeMap (event_key r) = Some t" "Decode t (Body r) = Inl err"
      "ServeHTTP Decode wh r start =
         Inr \<lparr>recorder = rejected (''Read error: '' @ err),
              effects = [handlers_lookup (event_key r), eventTypeMap_lookup (event_key r),
                         reflect_New t, Decode_call t (Body r),
                         log_Printf ''Error parsing the body: %s'' [err],
                         http_Error_call (''Read error: '' @ err) StatusBadRequest]\<rparr>"
  | (nil_handler) t p where "index_ok (handlers wh) (event_key r) = Some None"
      "eventTypeMap (event_key r) = Some t" "Decode t (Body r) = Inr p"
      "ServeHTTP Decode wh r start = Inl nil_pointer_dereference"
  | (handler_error) f t p err where "index_ok (handlers wh) (event_key r) = Some (Some f)"
      "eventTypeMap (event_key r) = Some t" "Decode t (Body r) = Inr p"
      "f [''X-Event-Key'' \<mapsto> event_key r] p = Some err"
      "ServeHTTP Decode wh r start =
         Inr \<lparr>recorder = rejected (''Error handling the event: '' @ err),
              effects = [handlers_lookup (event_key r), eventTypeMap_lookup (event_key r),
                         reflect_New t, Decode_call t (Body r),
                         handler_call f [''X-Event-Key'' \<mapsto> event_key r] p]
                @ LogOnError_effects wh (''Error handling the event: '' @ err)
                @ [http_Error_call (''Error handling the event: '' @ err)
                     StatusBadRequest]\<rparr>"
  | (success) f t p where "index_ok (handlers wh) (event_key r) = Some (Some f)"
      "eventTypeMap (event_key r) = Some t" "Decode t (Body r) = Inr p"
      "f [''X-Event-Key'' \<mapsto> event_key r] p = None"
      "ServeHTTP Decode wh r start =
         Inr \<lparr>recorder = NewRecorder,
              effects = [handlers_lookup (event_key r), eventTypeMap_lookup (event_key r),
                         reflect_New t, Decode_call t (Body r),
                         handler_call f [''X-Event-Key'' \<mapsto> event_key r] p]\<rparr>"
proof (cases "event_key r = []")
  case True
  show ?thesis by (rule missing [OF True ServeHTTP_missing [OF True]])
next
  case key: False
  show ?thesis
  proof (cases "index_ok (handlers wh) (event_key r)")
    case None
    show ?thesis by (rule no_handler [OF key None ServeHTTP_no_handler [OF refl key None]])
  next
    case reg: (Some h)
    show ?thesis
    proof (cases "eventTypeMap (event_key r)")
      case None
      show ?thesis
        by (rule unsupported [OF key reg None ServeHTTP_unsupported [OF refl key reg None]])
    next
      case cat: (Some t)
      show ?thesis
      proof (cases "Decode t (Body r)")
        case (Inl err)
        show ?thesis
          by (rule decode_error [OF reg cat Inl ServeHTTP_decode_error [where Decode = Decode, OF refl reg cat Inl]])
      next
        case dec: (Inr p)
        show ?thesis
        proof (cases h)
          case None
          from reg None have reg': "index_ok (handlers wh) (event_key r) = Some None"
            by simp
          show ?thesis
            by (rule nil_handler [OF reg' cat dec ServeHTTP_nil_handler [where Decode = Decode, OF refl reg' cat dec]])
        next
          case f: (Some f)
          from reg f have reg': "index_ok (handlers wh) (event_key r) = Some (Some f)"
            by simp
          show ?thesis
          proof (cases "f [''X-Event-Key'' \<mapsto> event_key r] p")
            case None
            show ?thesis
              by (rule success [OF reg' cat dec None
                    ServeHTTP_success [where Decode = Decode, OF refl reg' cat dec None]])
          next
            case (Some err)
            show ?thesis
              by (rule handler_error [OF reg' cat dec Some
                    ServeHTTP_handler_error [where Decode = Decode, OF refl reg' cat dec Some]])
          qed
        qed
      qed
    qed
  qed
qed

subsection \<open>Facts used by several properties\<close>

lemma card_catalog: "card (dom eventTypeMap) = 17"
  unfolding eventTypeMap_def dom_map_of_conv_image_fst
  apply (simp only: list.set_map[symmetric])
  apply (subst distinct_card)
  apply simp_all
  done

lemma event_key_absent_or_empty:
  "event_key r = [] \<longleftrightarrow>
     Header r ''X-Event-Key'' = None \<or> Header r ''X-Event-Key'' = Some []
     \<or> (\<exists>vs. Header r ''X-Event-Key'' = Some ([] # vs))"
  by (auto simp: event_key_def Header_Get_def split: option.splits list.splits)

lemma LogOnError_effects_filter:
  "filter P (LogOnError_effects wh m) =
     (if P (LogOnError_call m []) then LogOnError_effects wh m else [])"
  by (simp add: LogOnError_effects_def split: option.split)

lemma Code_rejected: "Code (rejected msg) = 400"
  by (simp add: rejected_def)

lemma Written_rejected: "Written (rejected msg) = msg @ [CHR 0x0A]"
  by (simp add: rejected_def)

lemma sublist_Written_rejected: "sublist m (Written (rejected (pre @ m)))"
  unfolding Written_rejected append_assoc by (rule sublist_appendI)

lemma sublist_Written_rejected_whole: "sublist m (Written (rejected m))"
  unfolding Written_rejected by (rule sublist_append_rightI)

lemma handler_call_notin_LogOnError_effects:
  "handler_call f hs p \<notin> set (LogOnError_effects wh m)"
  by (simp add: LogOnError_effects_def split: option.split)

text \<open>A call of a handler occurs on the last two paths only.\<close>

lemma handler_call_cases:
  assumes run: "ServeHTTP Decode wh r start = Inr s'"
    and call: "handler_call f hs p \<in> set (effects s')"
  obtains t where "index_ok (handlers wh) (event_key r) = Some (Some f)"
    and "eventTypeMap (event_key r) = Some t"
    and "Decode t (Body r) = Inr p"
    and "hs = [''X-Event-Key'' \<mapsto> event_key r]"
proof (cases rule: ServeHTTP_cases [of r Decode wh])
  case missing
  with run call show ?thesis
    by (auto simp: handler_call_notin_LogOnError_effects)
next
  case no_handler
  with run call show ?thesis
    by (auto simp: handler_call_notin_LogOnError_effects)
next
  case (unsupported h)
  with run call show ?thesis
    by (auto simp: handler_call_notin_LogOnError_effects)
next
  case (decode_error h t err)
  with run call show ?thesis by auto
next
  case (nil_handler t p)
  with run show ?thesis by simp
next
  case (handler_error g t q err)
  with run call have "g = f \<and> q = p \<and> hs = [''X-Event-Key'' \<mapsto> event_key r]"
    by (auto simp: handler_call_notin_LogOnError_effects)
  with handler_error that show ?thesis by blast
next
  case (success g t q)
  with run call have "g = f \<and> q = p \<and> hs = [''X-Event-Key'' \<mapsto> event_key r]"
    by auto
  with success that show ?thesis by blast
qed

lemma handler_call_registered:
  assumes "ServeHTTP Decode wh r start = Inr s'"
    and "handler_call f hs p \<in> set (effects s')"
  shows "index_ok (handlers wh) (event_key r) = Some (Some f)"
  using assms by (rule handler_call_cases)

text \<open>The body of the response identifies the path that rejects an uncataloged key.\<close>

lemma unsupported_response_cases:
  assumes run: "ServeHTTP Decode wh r start = Inr s'"
    and body: "prefix ''Unsupported event key type: '' (Written (recorder s'))"
  obtains h where "event_key r \<noteq> []"
    and "index_ok (handlers wh) (event_key r) = Some h"
    and "eventTypeMap (event_key r) = None"
proof (cases rule: ServeHTTP_cases [of r Decode wh])
  case missing
  with run body show ?thesis by (auto simp: Written_rejected)
next
  case no_handler
  with run body show ?thesis by (auto simp: Written_rejected)
next
  case (unsupported h)
  with that show ?thesis by blast
next
  case (decode_error h t err)
  with run body show ?thesis by (auto simp: Written_rejected)
next
  case (nil_handler t p)
  with run show ?thesis by simp
next
  case (handler_error g t q err)
  with run body show ?thesis by (auto simp: Written_rejected)
next
  case (success g t q)
  with run body show ?thesis by (auto simp: NewRecorder_def)
qed

text \<open>A registered handler of a cataloged key is called once when the body decodes.\<close>

lemma registered_handler_called_once:
  assumes "index_ok (handlers wh) k = Some (Some f)"
    and "eventTypeMap k = Some t"
    and "event_key r = k"
    and "Decode t (Body r) = Inr p"
  shows "\<exists>s'. ServeHTTP Decode wh r start = Inr s'
           \<and> filter is_handler_call (effects s')
               = [handler_call f [''X-Event-Key'' \<mapsto> k] p]"
proof (cases "f [''X-Event-Key'' \<mapsto> k] p")
  case None
  show ?thesis
    unfolding ServeHTTP_success [where Decode = Decode, OF assms(3,1,2,4) None]
    by simp
next
  case (Some err)
  show ?thesis
    unfolding ServeHTTP_handler_error [where Decode = Decode, OF assms(3,1,2,4) Some]
    by (simp add: LogOnError_effects_filter)
qed

section \<open>Properties of the dispatcher\<close>

subsection \<open>Successful dispatch\<close>

text \<open>
  Claim C1. Let a handler \<open>f\<close> be registered under an event key \<open>k\<close> of the catalog
  \<open>eventTypeMap\<close>, let the request carry \<open>k\<close> in the header \<open>X-Event-Key\<close>, and let
  its body decode without error into the payload \<open>p\<close> for the catalog type of \<open>k\<close>.
  Then \<open>ServeHTTP\<close> returns; it allocates one instance of that type, decodes the body
  once, and calls \<open>f\<close> exactly once, in this order, with the extracted header set and
  with \<open>p\<close>; and when \<open>f\<close> returns \<open>nil\<close>, the response has status 200 and an empty
  body.
\<close>

theorem dispatch_invokes_handler_once:
  assumes "index_ok (handlers wh) k = Some (Some f)"
    and "eventTypeMap k = Some t"
    and "event_key r = k"
    and "Decode t (Body r) = Inr p"
  shows "\<exists>s'. ServeHTTP Decode wh r start = Inr s'
           \<and> filter (\<lambda>e. is_reflect_New e \<or> is_Decode_call e \<or> is_handler_call e) (effects s')
               = [reflect_New t, Decode_call t (Body r),
                  handler_call f [''X-Event-Key'' \<mapsto> k] p]
           \<and> (f [''X-Event-Key'' \<mapsto> k] p = None
                \<longrightarrow> Code (recorder s') = 200 \<and> Written (recorder s') = [])"
proof (cases "f [''X-Event-Key'' \<mapsto> k] p")
  case None
  show ?thesis
    unfolding ServeHTTP_success [where Decode = Decode, OF assms(3,1,2,4) None]
    by (simp add: NewRecorder_def StatusOK_def)
next
  case (Some err)
  show ?thesis
    unfolding ServeHTTP_handler_error [where Decode = Decode, OF assms(3,1,2,4) Some]
    by (simp add: Some LogOnError_effects_filter)
qed

theorem dispatch_invokes_handler_once_witness:
  "index_ok (handlers \<lparr>LogOnError = None, handlers = Some [''repo:push'' \<mapsto> Some accept]\<rparr>)
     ''repo:push'' = Some (Some accept)
   \<and> eventTypeMap ''repo:push'' = Some RepoPushEvent
   \<and> event_key (test_request ''repo:push'' ''{}'') = ''repo:push''
   \<and> sample_Decode RepoPushEvent (Body (test_request ''repo:push'' ''{}'')) = Inr RepoPushEvent
   \<and> accept [''X-Event-Key'' \<mapsto> ''repo:push''] RepoPushEvent = None
   \<and> (\<exists>s'. ServeHTTP sample_Decode
              \<lparr>LogOnError = None, handlers = Some [''repo:push'' \<mapsto> Some accept]\<rparr>
              (test_request ''repo:push'' ''{}'') start = Inr s'
         \<and> filter (\<lambda>e. is_reflect_New e \<or> is_Decode_call e \<or> is_handler_call e) (effects s')
             = [reflect_New RepoPushEvent,
                Decode_call RepoPushEvent (Body (test_request ''repo:push'' ''{}'')),
                handler_call accept [''X-Event-Key'' \<mapsto> ''repo:push''] RepoPushEvent]
         \<and> (accept [''X-Event-Key'' \<mapsto> ''repo:push''] RepoPushEvent = None
              \<longrightarrow> Code (recorder s') = 200 \<and> Written (recorder s') = []))"
proof -
  let ?wh = "\<lparr>LogOnError = None, handlers = Some [''repo:push'' \<mapsto> Some accept]\<rparr>"
  let ?r = "test_request ''repo:push'' ''{}''"
  have h1: "index_ok (handlers ?wh) ''repo:push'' = Some (Some accept)"
    by (simp add: index_ok_def)
  have h2: "eventTypeMap ''repo:push'' = Some RepoPushEvent"
    by (simp add: eventTypeMap_def)
  have h3: "event_key ?r = ''repo:push''"
    by (simp add: event_key_def test_request_def Header_Get_def)
  have h4: "sample_Decode RepoPushEvent (Body ?r) = Inr RepoPushEvent"
    by (simp add: sample_Decode_def test_request_def)
  have h5: "accept [''X-Event-Key'' \<mapsto> ''repo:push''] RepoPushEvent = None"
    by (simp add: accept_def)
  show ?thesis
    by (intro conjI h1 h2 h3 h4 h5 dispatch_invokes_handler_once [where Decode = sample_Decode, OF h1 h2 h3 h4])
qed

subsection \<open>The diagnostic callback\<close>

text \<open>
  Claim C2 says that every failed dispatch calls \<open>LogOnError\<close>, when it is set, exactly
  once with the formatted message before the error response is written, and produces
  only the response when it is unset. The four paths through \<open>badRequest\<close> do so. The
  path for a body that does not decode does not go through \<open>badRequest\<close>: it calls
  \<open>log.Printf\<close> of the standard logger and then \<open>http.Error\<close>. The evaluation below
  is for a request for \<open>repo:push\<close> with an empty body, to a webhook with a handler
  for that key: with \<open>LogOnError\<close> set, the callback is not called; with \<open>LogOnError\<close>
  unset, the standard logger is written to all the same.
\<close>

theorem decode_error_bypasses_LogOnError:
  "ServeHTTP sample_Decode
      \<lparr>LogOnError = Some (\<lambda>format a. ()), handlers = Some [''repo:push'' \<mapsto> Some accept]\<rparr>
      (test_request ''repo:push'' []) start
     = Inr \<lparr>recorder = \<lparr>Code = 400, Written = ''Read error: EOF'' @ [CHR 0x0A],
                         wroteHeader = True\<rparr>,
            effects = [handlers_lookup ''repo:push'', eventTypeMap_lookup ''repo:push'',
                       reflect_New RepoPushEvent, Decode_call RepoPushEvent [],
                       log_Printf ''Error parsing the body: %s'' [''EOF''],
                       http_Error_call ''Read error: EOF'' 400]\<rparr>
   \<and> filter is_LogOnError_call
        [handlers_lookup ''repo:push'', eventTypeMap_lookup ''repo:push'',
         reflect_New RepoPushEvent, Decode_call RepoPushEvent [],
         log_Printf ''Error parsing the body: %s'' [''EOF''],
         http_Error_call ''Read error: EOF'' 400 :: event_type effect] = []
   \<and> ServeHTTP sample_Decode
      \<lparr>LogOnError = None, handlers = Some [''repo:push'' \<mapsto> Some accept]\<rparr>
      (test_request ''repo:push'' []) start
     = Inr \<lparr>recorder = \<lparr>Code = 400, Written = ''Read error: EOF'' @ [CHR 0x0A],
                         wroteHeader = True\<rparr>,
            effects = [handlers_lookup ''repo:push'', eventTypeMap_lookup ''repo:push'',
                       reflect_New RepoPushEvent, Decode_call RepoPushEvent [],
                       log_Printf ''Error parsing the body: %s'' [''EOF''],
                       http_Error_call ''Read error: EOF'' 400]\<rparr>"
proof -
  let ?r = "test_request ''repo:push'' []"
  have k: "event_key ?r = ''repo:push''"
    by (simp add: event_key_def test_request_def Header_Get_def)
  have cat: "eventTypeMap ''repo:push'' = Some RepoPushEvent"
    by (simp add: eventTypeMap_def)
  have dec: "sample_Decode RepoPushEvent (Body ?r) = Inl ''EOF''"
    by (simp add: sample_Decode_def test_request_def)
  have reg: "index_ok (handlers \<lparr>LogOnError = l,
      handlers = Some [''repo:push'' \<mapsto> Some accept]\<rparr>) ''repo:push'' = Some (Some accept)"
    for l
    by (simp add: index_ok_def)
  show ?thesis
    unfolding ServeHTTP_decode_error [where Decode = sample_Decode, OF k reg cat dec]
    by (simp add: rejected_def StatusBadRequest_def test_request_def)
qed

subsection \<open>Rejected requests\<close>

text \<open>
  Claim C3. When the header \<open>X-Event-Key\<close> of the request is absent (no entry, or an
  entry without values) or its first value is empty, \<open>ServeHTTP\<close> responds with status
  400 and a body that contains \<open>Missing X-Event-Key\<close>; it looks up neither the handler
  registry nor the catalog, allocates no payload, does not decode the body and calls no
  handler.
\<close>

theorem missing_event_key_rejected:
  assumes "Header r ''X-Event-Key'' = None \<or> Header r ''X-Event-Key'' = Some []
           \<or> (\<exists>vs. Header r ''X-Event-Key'' = Some ([] # vs))"
  shows "\<exists>s'. ServeHTTP Decode wh r start = Inr s'
          \<and> Code (recorder s') = 400
          \<and> sublist ''Missing X-Event-Key'' (Written (recorder s'))
          \<and> filter (\<lambda>e. is_handlers_lookup e \<or> is_eventTypeMap_lookup e \<or> is_reflect_New e
                         \<or> is_Decode_call e \<or> is_handler_call e) (effects s') = []"
proof -
  from assms have key: "event_key r = []"
    by (simp only: event_key_absent_or_empty)
  show ?thesis
    unfolding ServeHTTP_missing [OF key]
    by (simp add: Code_rejected sublist_Written_rejected_whole LogOnError_effects_filter)
qed

theorem missing_event_key_rejected_witness:
  "(Header (bare_request ''{}'') ''X-Event-Key'' = None
      \<or> Header (bare_request ''{}'') ''X-Event-Key'' = Some []
      \<or> (\<exists>vs. Header (bare_request ''{}'') ''X-Event-Key'' = Some ([] # vs)))
   \<and> (\<exists>s'. ServeHTTP sample_Decode
              \<lparr>LogOnError = None, handlers = Some [''repo:push'' \<mapsto> Some accept]\<rparr>
              (bare_request ''{}'') start = Inr s'
          \<and> Code (recorder s') = 400
          \<and> sublist ''Missing X-Event-Key'' (Written (recorder s'))
          \<and> filter (\<lambda>e. is_handlers_lookup e \<or> is_eventTypeMap_lookup e \<or> is_reflect_New e
                         \<or> is_Decode_call e \<or> is_handler_call e) (effects s') = [])"
proof -
  have h: "Header (bare_request ''{}'') ''X-Event-Key'' = None
      \<or> Header (bare_request ''{}'') ''X-Event-Key'' = Some []
      \<or> (\<exists>vs. Header (bare_request ''{}'') ''X-Event-Key'' = Some ([] # vs))"
    by (simp add: bare_request_def)
  show ?thesis
    by (intro conjI h missing_event_key_rejected [OF h])
qed

text \<open>
  Claim C4. When the event key of the request is not empty and the handler registry has
  no entry for it (the registry may be \<open>nil\<close>), \<open>ServeHTTP\<close> responds with status 400
  and the message \<open>No handler for the event key\<close> followed by the key; the catalog is not
  looked up, no payload is allocated, the body is not decoded and no handler is called.
  Nothing is assumed about the key and the catalog.
\<close>

theorem unknown_handler_rejected:
  assumes "event_key r = k" and "k \<noteq> []" and "index_ok (handlers wh) k = None"
  shows "\<exists>s'. ServeHTTP Decode wh r start = Inr s'
          \<and> Code (recorder s') = 400
          \<and> Written (recorder s') = ''No handler for the event key: '' @ k @ [CHR 0x0A]
          \<and> filter (\<lambda>e. is_eventTypeMap_lookup e \<or> is_reflect_New e \<or> is_Decode_call e
                         \<or> is_handler_call e) (effects s') = []"
  unfolding ServeHTTP_no_handler [OF assms]
  by (simp add: Code_rejected Written_rejected LogOnError_effects_filter)

theorem unknown_handler_rejected_witness:
  "event_key (test_request ''repo:push'' ''{}'') = ''repo:push''
   \<and> ''repo:push'' \<noteq> []
   \<and> index_ok (handlers \<lparr>LogOnError = None, handlers = Some [''repo:fork'' \<mapsto> Some accept]\<rparr>)
        ''repo:push'' = None
   \<and> (\<exists>s'. ServeHTTP sample_Decode
              \<lparr>LogOnError = None, handlers = Some [''repo:fork'' \<mapsto> Some accept]\<rparr>
              (test_request ''repo:push'' ''{}'') start = Inr s'
          \<and> Code (recorder s') = 400
          \<and> Written (recorder s')
              = ''No handler for the event key: '' @ ''repo:push'' @ [CHR 0x0A]
          \<and> filter (\<lambda>e. is_eventTypeMap_lookup e \<or> is_reflect_New e \<or> is_Decode_call e
                         \<or> is_handler_call e) (effects s') = [])"
proof -
  have h1: "event_key (test_request ''repo:push'' ''{}'') = ''repo:push''"
    by (simp add: event_key_def test_request_def Header_Get_def)
  have h2: "''repo:push'' \<noteq> []"
    by simp
  have h3: "index_ok (handlers \<lparr>LogOnError = None,
        handlers = Some [''repo:fork'' \<mapsto> Some accept]\<rparr>) ''repo:push'' = None"
    by (simp add: index_ok_def)
  show ?thesis
    by (intro conjI h1 h2 h3 unknown_handler_rejected [OF h1 h2 h3])
qed

text \<open>
  Claim C5, amended to a key that is not empty. When the event key of the request is not
  empty, has a handler in the registry and has no entry in \<open>eventTypeMap\<close>,
  \<open>ServeHTTP\<close> responds with status 400 and the message \<open>Unsupported event key type\<close>
  followed by the key; no payload is allocated, the body is not decoded and the handler
  is not called. Conversely, a response whose body starts with that message arises only
  for a key that is not empty, is registered and is not in the catalog. The catalog has
  seventeen keys.
\<close>

theorem unsupported_event_key_rejected:
  "(event_key r \<noteq> [] \<and> index_ok (handlers wh) (event_key r) = Some h
      \<and> eventTypeMap (event_key r) = None
    \<longrightarrow> (\<exists>s'. ServeHTTP Decode wh r start = Inr s'
           \<and> Code (recorder s') = 400
           \<and> Written (recorder s')
               = ''Unsupported event key type: '' @ event_key r @ [CHR 0x0A]
           \<and> filter (\<lambda>e. is_reflect_New e \<or> is_Decode_call e \<or> is_handler_call e)
                (effects s') = []))
   \<and> (\<forall>s'. ServeHTTP Decode wh r start = Inr s'
          \<and> prefix ''Unsupported event key type: '' (Written (recorder s'))
        \<longrightarrow> event_key r \<noteq> [] \<and> (\<exists>g. index_ok (handlers wh) (event_key r) = Some g)
            \<and> eventTypeMap (event_key r) = None)
   \<and> card (dom eventTypeMap) = 17"
proof (intro conjI impI allI)
  assume a: "event_key r \<noteq> [] \<and> index_ok (handlers wh) (event_key r) = Some h
      \<and> eventTypeMap (event_key r) = None"
  then have key: "event_key r \<noteq> []"
    and reg: "index_ok (handlers wh) (event_key r) = Some h"
    and cat: "eventTypeMap (event_key r) = None"
    by simp_all
  show "\<exists>s'. ServeHTTP Decode wh r start = Inr s'
           \<and> Code (recorder s') = 400
           \<and> Written (recorder s')
               = ''Unsupported event key type: '' @ event_key r @ [CHR 0x0A]
           \<and> filter (\<lambda>e. is_reflect_New e \<or> is_Decode_call e \<or> is_handler_call e)
                (effects s') = []"
    unfolding ServeHTTP_unsupported [OF refl key reg cat]
    by (simp add: Code_rejected Written_rejected LogOnError_effects_filter)
next
  fix s'
  assume "ServeHTTP Decode wh r start = Inr s'
          \<and> prefix ''Unsupported event key type: '' (Written (recorder s'))"
  then have run: "ServeHTTP Decode wh r start = Inr s'"
    and body: "prefix ''Unsupported event key type: '' (Written (recorder s'))"
    by simp_all
  from run body obtain g where "event_key r \<noteq> []"
    and "index_ok (handlers wh) (event_key r) = Some g"
    and "eventTypeMap (event_key r) = None"
    by (rule unsupported_response_cases)
  then show "event_key r \<noteq> []" and "\<exists>g. index_ok (handlers wh) (event_key r) = Some g"
    and "eventTypeMap (event_key r) = None"
    by simp_all
next
  show "card (dom eventTypeMap) = 17"
    by (rule card_catalog)
qed

theorem unsupported_event_key_rejected_witness:
  "event_key (test_request ''custom:event'' ''{}'') \<noteq> []
   \<and> index_ok (handlers \<lparr>LogOnError = None,
          handlers = Some [''custom:event'' \<mapsto> Some accept]\<rparr>)
        (event_key (test_request ''custom:event'' ''{}'')) = Some (Some accept)
   \<and> eventTypeMap (event_key (test_request ''custom:event'' ''{}'')) = None
   \<and> (\<exists>s'. ServeHTTP sample_Decode
              \<lparr>LogOnError = None, handlers = Some [''custom:event'' \<mapsto> Some accept]\<rparr>
              (test_request ''custom:event'' ''{}'') start = Inr s'
           \<and> Code (recorder s') = 400
           \<and> Written (recorder s')
               = ''Unsupported event key type: ''
                 @ event_key (test_request ''custom:event'' ''{}'') @ [CHR 0x0A]
           \<and> filter (\<lambda>e. is_reflect_New e \<or> is_Decode_call e \<or> is_handler_call e)
                (effects s') = [])"
proof -
  let ?r = "test_request ''custom:event'' ''{}''"
  let ?wh = "\<lparr>LogOnError = None, handlers = Some [''custom:event'' \<mapsto> Some accept]\<rparr>"
  have k: "event_key ?r = ''custom:event''"
    by (simp add: event_key_def test_request_def Header_Get_def)
  have h1: "event_key ?r \<noteq> []"
    by (simp add: k)
  have h2: "index_ok (handlers ?wh) (event_key ?r) = Some (Some accept)"
    by (simp add: k index_ok_def)
  have h3: "eventTypeMap (event_key ?r) = None"
    by (simp add: k eventTypeMap_def)
  have h: "event_key ?r \<noteq> [] \<and> index_ok (handlers ?wh) (event_key ?r) = Some (Some accept)
      \<and> eventTypeMap (event_key ?r) = None"
    by (intro conjI h1 h2 h3)
  show ?thesis
    by (intro conjI h1 h2 h3
        unsupported_event_key_rejected [where Decode = sample_Decode, THEN conjunct1, THEN mp, OF h])
qed

text \<open>
  Without the restriction to a key that is not empty, the statement fails. \<open>Handle\<close>
  accepts the empty string as a key, and the empty string is not in the catalog; a
  request whose header \<open>X-Event-Key\<close> is empty then has a key with a registered
  handler and without catalog entry, and \<open>ServeHTTP\<close>, which tests for the empty key
  first, answers \<open>Missing X-Event-Key\<close>.
\<close>

theorem unsupported_event_key_empty_key_counterexample:
  "Handle NewWebhook [] (Some accept)
     = Inr \<lparr>LogOnError = None, handlers = Some [[] \<mapsto> Some accept]\<rparr>
   \<and> index_ok (handlers \<lparr>LogOnError = None, handlers = Some [[] \<mapsto> Some accept]\<rparr>)
        (event_key (test_request [] ''{}'')) = Some (Some accept)
   \<and> eventTypeMap (event_key (test_request [] ''{}'')) = None
   \<and> ServeHTTP sample_Decode \<lparr>LogOnError = None, handlers = Some [[] \<mapsto> Some accept]\<rparr>
        (test_request [] ''{}'') start
       = Inr \<lparr>recorder = \<lparr>Code = 400, Written = ''Missing X-Event-Key'' @ [CHR 0x0A],
                           wroteHeader = True\<rparr>,
              effects = [http_Error_call ''Missing X-Event-Key'' 400]\<rparr>
   \<and> \<not> prefix ''Unsupported event key type: '' (''Missing X-Event-Key'' @ [CHR 0x0A])"
proof -
  have key: "event_key (test_request [] ''{}'') = []"
    by (simp add: event_key_def test_request_def Header_Get_def)
  show ?thesis
    unfolding ServeHTTP_missing [OF key] key
    by (simp add: Handle_def NewWebhook_def index_ok_def eventTypeMap_empty_key
        rejected_def LogOnError_effects_def StatusBadRequest_def)
qed

text \<open>
  Claim C6. When the event key of the request has a handler and a catalog type, and
  decoding the body into that type fails with an error, \<open>ServeHTTP\<close> responds with
  status 400 and the body \<open>Read error: \<close> followed by the message of the error, and
  the handler is not called.
\<close>

theorem body_parse_error_rejected:
  assumes "event_key r = k" and "index_ok (handlers wh) k = Some h"
    and "eventTypeMap k = Some t" and "Decode t (Body r) = Inl err"
  shows "\<exists>s'. ServeHTTP Decode wh r start = Inr s'
          \<and> Code (recorder s') = 400
          \<and> Written (recorder s') = ''Read error: '' @ err @ [CHR 0x0A]
          \<and> sublist err (Written (recorder s'))
          \<and> filter is_handler_call (effects s') = []"
proof -
  have "sublist err (Written (rejected (''Read error: '' @ err)))"
    by (rule sublist_Written_rejected)
  then show ?thesis
    unfolding ServeHTTP_decode_error [where Decode = Decode, OF assms]
    by (simp add: Code_rejected Written_rejected)
qed

theorem body_parse_error_rejected_witness:
  "event_key (test_request ''repo:push'' []) = ''repo:push''
   \<and> index_ok (handlers \<lparr>LogOnError = None, handlers = Some [''repo:push'' \<mapsto> Some accept]\<rparr>)
        ''repo:push'' = Some (Some accept)
   \<and> eventTypeMap ''repo:push'' = Some RepoPushEvent
   \<and> sample_Decode RepoPushEvent (Body (test_request ''repo:push'' [])) = Inl ''EOF''
   \<and> (\<exists>s'. ServeHTTP sample_Decode
              \<lparr>LogOnError = None, handlers = Some [''repo:push'' \<mapsto> Some accept]\<rparr>
              (test_request ''repo:push'' []) start = Inr s'
          \<and> Code (recorder s') = 400
          \<and> Written (recorder s') = ''Read error: '' @ ''EOF'' @ [CHR 0x0A]
          \<and> sublist ''EOF'' (Written (recorder s'))
          \<and> filter is_handler_call (effects s') = [])"
proof -
  have h1: "event_key (test_request ''repo:push'' []) = ''repo:push''"
    by (simp add: event_key_def test_request_def Header_Get_def)
  have h2: "index_ok (handlers \<lparr>LogOnError = None,
        handlers = Some [''repo:push'' \<mapsto> Some accept]\<rparr>) ''repo:push'' = Some (Some accept)"
    by (simp add: index_ok_def)
  have h3: "eventTypeMap ''repo:push'' = Some RepoPushEvent"
    by (simp add: eventTypeMap_def)
  have h4: "sample_Decode RepoPushEvent (Body (test_request ''repo:push'' [])) = Inl ''EOF''"
    by (simp add: sample_Decode_def test_request_def)
  show ?thesis
    by (intro conjI h1 h2 h3 h4 body_parse_error_rejected [where Decode = sample_Decode, OF h1 h2 h3 h4])
qed

subsection \<open>The result of the handler\<close>

text \<open>
  Claim C7. In every dispatch in which a handler is called, it is the handler registered
  for the event key of the request and it is called once. When it returns an error, the
  response has status 400 and the body \<open>Error handling the event: \<close> followed by the
  message of the error; when it returns \<open>nil\<close>, the response has status 200 and an
  empty body.
\<close>

theorem handler_error_rejected:
  assumes "ServeHTTP Decode wh r start = Inr s'"
    and "handler_call f hs p \<in> set (effects s')"
  shows "index_ok (handlers wh) (event_key r) = Some (Some f)
     \<and> filter is_handler_call (effects s') = [handler_call f hs p]
     \<and> (case f hs p of
          Some err \<Rightarrow>
            Code (recorder s') = 400
            \<and> Written (recorder s') = ''Error handling the event: '' @ err @ [CHR 0x0A]
            \<and> sublist err (Written (recorder s'))
        | None \<Rightarrow> Code (recorder s') = 200 \<and> Written (recorder s') = [])"
proof -
  from assms obtain t where reg: "index_ok (handlers wh) (event_key r) = Some (Some f)"
    and cat: "eventTypeMap (event_key r) = Some t"
    and dec: "Decode t (Body r) = Inr p"
    and hs: "hs = [''X-Event-Key'' \<mapsto> event_key r]"
    by (rule handler_call_cases)
  show ?thesis
  proof (cases "f hs p")
    case None
    then have ret: "f [''X-Event-Key'' \<mapsto> event_key r] p = None"
      by (simp add: hs)
    from assms(1) have "s' = \<lparr>recorder = NewRecorder,
          effects = [handlers_lookup (event_key r), eventTypeMap_lookup (event_key r),
                     reflect_New t, Decode_call t (Body r),
                     handler_call f [''X-Event-Key'' \<mapsto> event_key r] p]\<rparr>"
      unfolding ServeHTTP_success [where Decode = Decode, OF refl reg cat dec ret] by simp
    with reg None show ?thesis
      by (simp add: hs NewRecorder_def StatusOK_def)
  next
    case (Some err)
    then have ret: "f [''X-Event-Key'' \<mapsto> event_key r] p = Some err"
      by (simp add: hs)
    have sub: "sublist err (Written (rejected (''Error handling the event: '' @ err)))"
      by (rule sublist_Written_rejected)
    from assms(1) have "s' = \<lparr>recorder = rejected (''Error handling the event: '' @ err),
          effects = [handlers_lookup (event_key r), eventTypeMap_lookup (event_key r),
                     reflect_New t, Decode_call t (Body r),
                     handler_call f [''X-Event-Key'' \<mapsto> event_key r] p]
                @ LogOnError_effects wh (''Error handling the event: '' @ err)
                @ [http_Error_call (''Error handling the event: '' @ err)
                     StatusBadRequest]\<rparr>"
      unfolding ServeHTTP_handler_error [where Decode = Decode, OF refl reg cat dec ret]
      by simp
    with reg Some sub show ?thesis
      by (simp add: hs Code_rejected Written_rejected LogOnError_effects_filter)
  qed
qed

theorem handler_error_rejected_witness:
  "ServeHTTP sample_Decode
      \<lparr>LogOnError = None, handlers = Some [''repo:push'' \<mapsto> Some refuse]\<rparr>
      (test_request ''repo:push'' ''{}'') start
     = Inr \<lparr>recorder = rejected ''Error handling the event: refused'',
            effects = [handlers_lookup ''repo:push'', eventTypeMap_lookup ''repo:push'',
                       reflect_New RepoPushEvent, Decode_call RepoPushEvent ''{}'',
                       handler_call refuse [''X-Event-Key'' \<mapsto> ''repo:push''] RepoPushEvent,
                       http_Error_call ''Error handling the event: refused'' 400]\<rparr>
   \<and> handler_call refuse [''X-Event-Key'' \<mapsto> ''repo:push''] RepoPushEvent
       \<in> set [handlers_lookup ''repo:push'', eventTypeMap_lookup ''repo:push'',
              reflect_New RepoPushEvent, Decode_call RepoPushEvent ''{}'',
              handler_call refuse [''X-Event-Key'' \<mapsto> ''repo:push''] RepoPushEvent,
              http_Error_call ''Error handling the event: refused'' 400]
   \<and> refuse [''X-Event-Key'' \<mapsto> ''repo:push''] RepoPushEvent = Some ''refused''
   \<and> Code (rejected ''Error handling the event: refused'') = 400
   \<and> Written (rejected ''Error handling the event: refused'')
       = ''Error handling the event: '' @ ''refused'' @ [CHR 0x0A]
   \<and> sublist ''refused'' (Written (rejected ''Error handling the event: refused''))"
proof -
  let ?wh = "\<lparr>LogOnError = None, handlers = Some [''repo:push'' \<mapsto> Some refuse]\<rparr>"
  let ?r = "test_request ''repo:push'' ''{}''"
  let ?hs = "[''X-Event-Key'' \<mapsto> ''repo:push'']"
  let ?es = "[handlers_lookup ''repo:push'', eventTypeMap_lookup ''repo:push'',
              reflect_New RepoPushEvent, Decode_call RepoPushEvent ''{}'',
              handler_call refuse ?hs RepoPushEvent,
              http_Error_call ''Error handling the event: refused'' 400]"
  let ?s = "\<lparr>recorder = rejected ''Error handling the event: refused'', effects = ?es\<rparr>"
  have k: "event_key ?r = ''repo:push''"
    by (simp add: event_key_def test_request_def Header_Get_def)
  have reg: "index_ok (handlers ?wh) ''repo:push'' = Some (Some refuse)"
    by (simp add: index_ok_def)
  have cat: "eventTypeMap ''repo:push'' = Some RepoPushEvent"
    by (simp add: eventTypeMap_def)
  have dec: "sample_Decode RepoPushEvent (Body ?r) = Inr RepoPushEvent"
    by (simp add: sample_Decode_def test_request_def)
  have ret: "refuse ?hs RepoPushEvent = Some ''refused''"
    by (simp add: refuse_def)
  have run: "ServeHTTP sample_Decode ?wh ?r start = Inr ?s"
    unfolding ServeHTTP_handler_error [where Decode = sample_Decode, OF k reg cat dec ret]
    by (simp add: LogOnError_effects_def StatusBadRequest_def test_request_def)
  have call: "handler_call refuse ?hs RepoPushEvent \<in> set ?es"
    by simp
  have call': "handler_call refuse ?hs RepoPushEvent \<in> set (effects ?s)"
    by simp
  have "case refuse ?hs RepoPushEvent of
          Some err \<Rightarrow>
            Code (recorder ?s) = 400
            \<and> Written (recorder ?s) = ''Error handling the event: '' @ err @ [CHR 0x0A]
            \<and> sublist err (Written (recorder ?s))
        | None \<Rightarrow> Code (recorder ?s) = 200 \<and> Written (recorder ?s) = []"
    using handler_error_rejected [OF run call'] by (elim conjE)
  then have "Code (recorder ?s) = 400
      \<and> Written (recorder ?s) = ''Error handling the event: '' @ ''refused'' @ [CHR 0x0A]
      \<and> sublist ''refused'' (Written (recorder ?s))"
    unfolding ret option.case .
  then have c: "Code (rejected ''Error handling the event: refused'') = 400
      \<and> Written (rejected ''Error handling the event: refused'')
          = ''Error handling the event: '' @ ''refused'' @ [CHR 0x0A]
      \<and> sublist ''refused'' (Written (rejected ''Error handling the event: refused''))"
    unfolding world.select_convs .
  show ?thesis
    by (rule conjI [OF run conjI [OF call conjI [OF ret c]]])
qed

subsection \<open>Registration\<close>

text \<open>
  Claim C8. On a webhook whose registry is allocated, \<open>Handle(k, h1)\<close> followed by
  \<open>Handle(k, h2)\<close> returns without panic and leaves \<open>h2\<close> under \<open>k\<close>; the entries of
  the other keys are those of the webhook before the two calls; the result is the one of
  the single call \<open>Handle(k, h2)\<close>. In a dispatch of a request with key \<open>k\<close> to the
  resulting webhook, no handler other than \<open>h2\<close> is called; and when \<open>k\<close> is in the
  catalog and the body decodes, \<open>h2\<close> is called, exactly once, with the header set and
  the decoded payload. (For a registry that is \<open>nil\<close>, see claim C10.)
\<close>

theorem Handle_overwrites:
  assumes "handlers (wh :: 'p Webhook) = Some m"
  shows "\<exists>wh1 wh2. Handle wh k h1 = Inr wh1 \<and> Handle wh1 k h2 = Inr wh2
           \<and> handlers wh2 = Some (m(k \<mapsto> h2))
           \<and> index_ok (handlers wh2) k = Some h2
           \<and> (\<forall>k'. k' \<noteq> k \<longrightarrow> index_ok (handlers wh2) k' = index_ok (handlers wh) k')
           \<and> Handle wh k h2 = Inr wh2
           \<and> (\<forall>Decode r s' f hs p.
                 event_key r = k \<and> ServeHTTP Decode wh2 r start = Inr s'
                 \<and> handler_call f hs p \<in> set (effects s')
                 \<longrightarrow> h2 = Some f)
           \<and> (\<forall>Decode r f2 t p.
                 h2 = Some f2 \<and> event_key r = k \<and> eventTypeMap k = Some t
                 \<and> Decode t (Body r) = Inr p
                 \<longrightarrow> (\<exists>s'. ServeHTTP Decode wh2 r start = Inr s'
                        \<and> filter is_handler_call (effects s')
                            = [handler_call f2 [''X-Event-Key'' \<mapsto> k] p]))"
proof -
  let ?wh1 = "wh\<lparr>handlers := Some (m(k \<mapsto> h1))\<rparr>"
  let ?wh2 = "wh\<lparr>handlers := Some (m(k \<mapsto> h2))\<rparr>"
  have r1: "Handle wh k h1 = Inr ?wh1"
    by (simp add: Handle_def assms)
  have r2: "Handle ?wh1 k h2 = Inr ?wh2"
    by (simp add: Handle_def)
  have r3: "handlers ?wh2 = Some (m(k \<mapsto> h2))"
    by simp
  have r4: "index_ok (handlers ?wh2) k = Some h2"
    by (simp add: index_ok_def)
  have r5: "\<forall>k'. k' \<noteq> k \<longrightarrow> index_ok (handlers ?wh2) k' = index_ok (handlers wh) k'"
    by (simp add: index_ok_def assms)
  have r6: "Handle wh k h2 = Inr ?wh2"
    by (simp add: Handle_def assms)
  have r7: "\<forall>Decode r s' f hs p.
                 event_key r = k \<and> ServeHTTP Decode ?wh2 r start = Inr s'
                 \<and> handler_call f hs p \<in> set (effects s')
                 \<longrightarrow> h2 = Some f"
  proof (intro allI impI)
    fix Decode r s' f hs p
    assume a: "event_key r = k \<and> ServeHTTP Decode ?wh2 r start = Inr s'
                 \<and> handler_call f hs p \<in> set (effects s')"
    then have "index_ok (handlers ?wh2) (event_key r) = Some (Some f)"
      using handler_call_registered [of Decode ?wh2 r s' f hs p] by simp
    with a r4 show "h2 = Some f"
      by simp
  qed
  have r8: "\<forall>Decode r f2 t p.
                 h2 = Some f2 \<and> event_key r = k \<and> eventTypeMap k = Some t
                 \<and> Decode t (Body r) = Inr p
                 \<longrightarrow> (\<exists>s'. ServeHTTP Decode ?wh2 r start = Inr s'
                        \<and> filter is_handler_call (effects s')
                            = [handler_call f2 [''X-Event-Key'' \<mapsto> k] p])"
  proof (intro allI impI)
    fix Decode :: "event_type \<Rightarrow> string \<Rightarrow> go_error + 'p"
    fix r f2 t p
    assume a: "h2 = Some f2 \<and> event_key r = k \<and> eventTypeMap k = Some t
                 \<and> Decode t (Body r) = Inr p"
    then have reg: "index_ok (handlers ?wh2) k = Some (Some f2)"
      and cat: "eventTypeMap k = Some t" and key: "event_key r = k"
      and dec: "Decode t (Body r) = Inr p"
      using r4 by simp_all
    show "\<exists>s'. ServeHTTP Decode ?wh2 r start = Inr s'
                        \<and> filter is_handler_call (effects s')
                            = [handler_call f2 [''X-Event-Key'' \<mapsto> k] p]"
      by (rule registered_handler_called_once [where Decode = Decode, OF reg cat key dec])
  qed
  show ?thesis
    by (intro exI conjI; (rule r1 r2 r3 r4 r5 r6 r7 r8))
qed

theorem Handle_overwrites_witness:
  "handlers (NewWebhook :: event_type Webhook) = Some Map.empty
   \<and> eventTypeMap ''repo:push'' = Some RepoPushEvent
   \<and> event_key (test_request ''repo:push'' ''{}'') = ''repo:push''
   \<and> sample_Decode RepoPushEvent (Body (test_request ''repo:push'' ''{}'')) = Inr RepoPushEvent
   \<and> (\<exists>wh1 wh2. Handle NewWebhook ''repo:push'' (Some accept) = Inr wh1
           \<and> Handle wh1 ''repo:push'' (Some refuse) = Inr wh2
           \<and> index_ok (handlers wh2) ''repo:push'' = Some (Some refuse)
           \<and> (\<exists>s'. ServeHTTP sample_Decode wh2 (test_request ''repo:push'' ''{}'') start
                     = Inr s'
                \<and> filter is_handler_call (effects s')
                    = [handler_call refuse [''X-Event-Key'' \<mapsto> ''repo:push'']
                         RepoPushEvent]))"
proof -
  let ?r = "test_request ''repo:push'' ''{}''"
  have h: "handlers (NewWebhook :: event_type Webhook) = Some Map.empty"
    by (simp add: NewWebhook_def)
  have cat: "eventTypeMap ''repo:push'' = Some RepoPushEvent"
    by (simp add: eventTypeMap_def)
  have key: "event_key ?r = ''repo:push''"
    by (simp add: event_key_def test_request_def Header_Get_def)
  have dec: "sample_Decode RepoPushEvent (Body ?r) = Inr RepoPushEvent"
    by (simp add: sample_Decode_def test_request_def)
  from Handle_overwrites [OF h, of "''repo:push''" "Some accept" "Some refuse"]
  obtain wh1 wh2 where
    a1: "Handle NewWebhook ''repo:push'' (Some accept) = Inr wh1"
    and a2: "Handle wh1 ''repo:push'' (Some refuse) = Inr wh2"
    and a3: "index_ok (handlers wh2) ''repo:push'' = Some (Some refuse)"
    and pos: "\<forall>Decode r f2 t p.
                 Some refuse = Some f2 \<and> event_key r = ''repo:push''
                 \<and> eventTypeMap ''repo:push'' = Some t \<and> Decode t (Body r) = Inr p
                 \<longrightarrow> (\<exists>s'. ServeHTTP Decode wh2 r start = Inr s'
                        \<and> filter is_handler_call (effects s')
                            = [handler_call f2 [''X-Event-Key'' \<mapsto> ''repo:push''] p])"
    by (elim exE conjE) (rule that)
  have pre: "Some refuse = Some refuse \<and> event_key ?r = ''repo:push''
      \<and> eventTypeMap ''repo:push'' = Some RepoPushEvent
      \<and> sample_Decode RepoPushEvent (Body ?r) = Inr RepoPushEvent"
    by (intro conjI refl key cat dec)
  have run: "\<exists>s'. ServeHTTP sample_Decode wh2 ?r start = Inr s'
      \<and> filter is_handler_call (effects s')
          = [handler_call refuse [''X-Event-Key'' \<mapsto> ''repo:push''] RepoPushEvent]"
    by (rule pos [THEN spec [of _ sample_Decode], THEN spec [of _ ?r],
          THEN spec [of _ refuse], THEN spec [of _ RepoPushEvent],
          THEN spec [of _ RepoPushEvent], THEN mp, OF pre])
  have "\<exists>wh1 wh2. Handle NewWebhook ''repo:push'' (Some accept) = Inr wh1
           \<and> Handle wh1 ''repo:push'' (Some refuse) = Inr wh2
           \<and> index_ok (handlers wh2) ''repo:push'' = Some (Some refuse)
           \<and> (\<exists>s'. ServeHTTP sample_Decode wh2 ?r start = Inr s'
                \<and> filter is_handler_call (effects s')
                    = [handler_call refuse [''X-Event-Key'' \<mapsto> ''repo:push'']
                         RepoPushEvent])"
    by (rule exI [of _ wh1], rule exI [of _ wh2], intro conjI a1 a2 a3 run)
  then show ?thesis
    by (intro conjI h cat key dec)
qed

subsection \<open>The zero value\<close>

text \<open>
  Claim C9. A webhook without registered handlers, its registry \<open>nil\<close> (the zero value)
  or empty (as \<open>NewWebhook\<close> returns it), serves every request without panic and
  rejects it: the response has status 400, its body is the message for a missing event
  key or the one for a key without handler, and no handler is called.
\<close>

theorem zero_value_rejects_all:
  assumes "handlers wh = None \<or> handlers wh = Some Map.empty"
  shows "\<exists>s'. ServeHTTP Decode wh r start = Inr s'
          \<and> Code (recorder s') = 400
          \<and> (Written (recorder s') = ''Missing X-Event-Key'' @ [CHR 0x0A]
              \<or> Written (recorder s')
                  = ''No handler for the event key: '' @ event_key r @ [CHR 0x0A])
          \<and> filter is_handler_call (effects s') = []"
proof (cases "event_key r = []")
  case True
  show ?thesis
    unfolding ServeHTTP_missing [OF True]
    by (simp add: Code_rejected Written_rejected LogOnError_effects_filter)
next
  case False
  from assms have none: "index_ok (handlers wh) (event_key r) = None"
    by (auto simp: index_ok_def)
  show ?thesis
    unfolding ServeHTTP_no_handler [OF refl False none]
    by (simp add: Code_rejected Written_rejected LogOnError_effects_filter)
qed

theorem zero_value_rejects_all_witness:
  "(handlers (zero_Webhook :: event_type Webhook) = None
      \<or> handlers (zero_Webhook :: event_type Webhook) = Some Map.empty)
   \<and> (\<exists>s'. ServeHTTP sample_Decode zero_Webhook (test_request ''repo:push'' ''{}'') start
             = Inr s'
          \<and> Code (recorder s') = 400
          \<and> (Written (recorder s') = ''Missing X-Event-Key'' @ [CHR 0x0A]
              \<or> Written (recorder s')
                  = ''No handler for the event key: ''
                    @ event_key (test_request ''repo:push'' ''{}'') @ [CHR 0x0A])
          \<and> filter is_handler_call (effects s') = [])"
proof -
  have h: "handlers (zero_Webhook :: event_type Webhook) = None
      \<or> handlers (zero_Webhook :: event_type Webhook) = Some Map.empty"
    by (simp add: zero_Webhook_def)
  show ?thesis
    by (intro conjI h zero_value_rejects_all [OF h])
qed

text \<open>
  Claim C10. \<open>Handle\<close> on the zero value of \<open>Webhook\<close>, and on any webhook whose
  registry is \<open>nil\<close>, panics with an assignment to an entry in a \<open>nil\<close> map; on the
  webhook \<open>NewWebhook\<close> returns it stores the handler; and \<open>ServeHTTP\<close> on the zero
  value returns without panic.
\<close>

theorem Handle_on_nil_map_panics:
  "Handle zero_Webhook eventKey handler = Inl assignment_to_entry_in_nil_map
   \<and> Handle (wh\<lparr>handlers := None\<rparr>) eventKey handler = Inl assignment_to_entry_in_nil_map
   \<and> Handle NewWebhook eventKey handler
       = Inr \<lparr>LogOnError = None, handlers = Some [eventKey \<mapsto> handler]\<rparr>
   \<and> (\<exists>s'. ServeHTTP Decode zero_Webhook r start = Inr s')"
proof -
  have "\<exists>s'. ServeHTTP Decode zero_Webhook r start = Inr s'"
  proof (cases "event_key r = []")
    case True
    show ?thesis
      unfolding ServeHTTP_missing [OF True] by simp
  next
    case False
    have none: "index_ok (handlers zero_Webhook) (event_key r) = None"
      by (simp add: index_ok_def zero_Webhook_def)
    show ?thesis
      unfolding ServeHTTP_no_handler [OF refl False none] by simp
  qed
  then show ?thesis
    by (simp add: Handle_def zero_Webhook_def NewWebhook_def)
qed

theorem Handle_on_nil_map_panics_witness:
  "Handle zero_Webhook ''repo:push'' (Some accept) = Inl assignment_to_entry_in_nil_map
   \<and> Handle (NewWebhook\<lparr>handlers := None\<rparr>) ''repo:push'' (Some accept)
       = Inl assignment_to_entry_in_nil_map
   \<and> Handle NewWebhook ''repo:push'' (Some accept)
       = Inr \<lparr>LogOnError = None, handlers = Some [''repo:push'' \<mapsto> Some accept]\<rparr>
   \<and> (\<exists>s'. ServeHTTP sample_Decode zero_Webhook (test_request ''repo:push'' ''{}'') start
          = Inr s')"
  by (rule Handle_on_nil_map_panics)

end
